theory Spec2Isabelle
  imports Main "HOL-Library.Word"
begin

unbundle bit_operations_syntax

section \<open>Result codes\<close>

text \<open>
  Modelled from the spec: the enumeration of result kinds, whose header is not among the
  sources. The spec fixes 0 for success and a distinct negative code for every other kind
  (\<open>-kRebootRequired\<close> for a deferred job, a negated error kind otherwise). A code that a
  function returns is therefore either \<open>kSuccess\<close> or \<open>Neg k\<close>, which stands for the
  C++ expression \<open>-k\<close>; the tests \<open>ret != 0\<close>, \<open>ret != kSuccess\<close> and \<open>ret < 0\<close> on such a
  code all read \<open>ret \<noteq> kSuccess\<close>. Values that libcryptsetup returns stay integers.
\<close>

datatype error_kind =
    kUserCancelled | kRebootRequired
  | kErrorParamsInvalid | kErrorDeviceMounted | kErrorDeviceEncrypted
  | kErrorWrongPassphrase | kErrorDisabledMountPoint
  | kErrorCreateHeader | kErrorApplyHeader | kErrorOpenFileFailed | kErrorOpenFstabFailed
  | kErrorInitCrypt | kErrorLoadCrypt | kErrorSetOffset | kErrorFormatLuks
  | kErrorAddKeyslot | kErrorInitReencrypt | kErrorActive | kErrorDeactive
  | kErrorRestoreFromFile | kErrorBackupHeader | kErrorGetReencryptFlag
  | kErrorWrongFlags | kErrorReencryptFailed | kErrorResizeFs
  | kErrorChangePassphraseFailed | kErrorSetTokenFailed | kErrorSetLabel

datatype exit_code = kSuccess | Neg error_kind

datatype EncryptVersion =
    kNotEncrypted | kVersionLUKS1 | kVersionLUKS2 | kVersionLUKSUnknown | kVersionUnknown

datatype EncryptStatus =
    kStatusFinished | kStatusOfflineUnfinished | kStatusOnlineUnfinished | kStatusUnknown

section \<open>Strings and request parameters\<close>

text \<open>\<open>QString::number\<close> on a non-negative and on a signed integer: decimal digits.\<close>

fun string_of_nat :: "nat \<Rightarrow> string" where
  "string_of_nat n =
     (if n < 10 then [char_of (48 + n)]
      else string_of_nat (n div 10) @ [char_of (48 + n mod 10)])"

declare string_of_nat.simps [simp del]

definition string_of_int :: "int \<Rightarrow> string" where
  "string_of_int i =
     (if i < 0 then CHR ''-'' # string_of_nat (nat (- i)) else string_of_nat (nat i))"

definition to_lower :: "char \<Rightarrow> char" where
  "to_lower c =
     (let n = (of_char c :: nat) in if 65 \<le> n \<and> n \<le> 90 then char_of (n + 32) else c)"

text \<open>
  The request is a \<open>QVariantMap\<close>. Its keys are the constants of \<open>encrypt_param_keys\<close>
  (declared in a header that is not among the sources, so they are names here, with
  \<open>OtherKey\<close> for any further key), its values the three payload types the callers send.
  The map is kept as an association list read with \<open>map_of\<close>. A missing key reads as
  an invalid variant: the empty string, \<open>false\<close>, 0.
\<close>

datatype param_key =
    kKeyDevice | kKeyUUID | kKeyCipher | kKeyPassphrase | kKeyOldPassphrase
  | kKeyInitParamsOnly | kKeyRecoveryExportPath | kKeyEncMode | kKeyDeviceName
  | kKeyMountPoint | kKeyTPMConfig | kKeyTPMToken | kKeyValidateWithRecKey
  | kKeyBackingDevUUID | kKeyClearDevUUID | OtherKey string

datatype variant = VString string | VBool bool | VInt int

type_synonym QVariantMap = "(param_key \<times> variant) list"

text \<open>\<open>params.value(key)\<close>; \<open>params.isEmpty()\<close> is \<open>params = []\<close>.\<close>

definition qvalue :: "QVariantMap \<Rightarrow> param_key \<Rightarrow> variant option" where
  "qvalue params k = map_of params k"

definition toString :: "variant option \<Rightarrow> string" where
  "toString v =
     (case v of
        None \<Rightarrow> []
      | Some (VString s) \<Rightarrow> s
      | Some (VBool b) \<Rightarrow> (if b then ''true'' else ''false'')
      | Some (VInt n) \<Rightarrow> string_of_int n)"

definition toBool :: "variant option \<Rightarrow> bool" where
  "toBool v =
     (case v of
        None \<Rightarrow> False
      | Some (VBool b) \<Rightarrow> b
      | Some (VInt n) \<Rightarrow> n \<noteq> 0
      | Some (VString s) \<Rightarrow>
          \<not> (s = [] \<or> map to_lower s = ''0'' \<or> map to_lower s = ''false''))"

text \<open>The struct \<open>EncryptParams\<close>, with the fields \<open>bcConvertParams\<close> fills.\<close>

record EncryptParams =
  device :: string
  passphrase :: string
  cipher :: string
  recoveryPath :: string
  tpmToken :: string

text \<open>The struct \<open>EncryptConfig\<close>, with the fields \<open>bcReadEncryptConfig\<close> fills.\<close>

record EncryptConfig =
  cfg_cipher :: string
  cfg_device :: string
  mountPoint :: string
  deviceName :: string
  devicePath :: string
  keySize :: string
  mode :: string
  cfg_recoveryPath :: string
  clearDev :: string

text \<open>What the code reads from a \<open>DBlockDevice\<close>.\<close>

record blk_dev =
  blk_idType :: string
  blk_idVersion :: string
  blk_idUUID :: string
  blk_device :: string
  blk_isEncrypted :: bool
  blk_mountPoints :: "string list"

section \<open>JSON values\<close>

datatype json = JString string | JInt int | JArray "json list" | JObject "(string \<times> json) list"

type_synonym json_object = "(string \<times> json) list"

text \<open>\<open>QJsonObject::insert\<close>: replaces the value of an existing key, adds the key otherwise.\<close>

definition json_insert :: "string \<Rightarrow> json \<Rightarrow> json_object \<Rightarrow> json_object" where
  "json_insert k v obj =
     (if k \<in> fst ` set obj then map (\<lambda>(k', v'). if k' = k then (k', v) else (k', v')) obj
      else obj @ [(k, v)])"

definition json_keys :: "json_object \<Rightarrow> string set" where
  "json_keys obj = fst ` set obj"

text \<open>\<open>QJsonValue::toInt(defaultValue)\<close> of \<open>obj.value(k)\<close>.\<close>

definition json_toInt :: "json_object \<Rightarrow> string \<Rightarrow> int \<Rightarrow> int" where
  "json_toInt obj k d = (case map_of obj k of Some (JInt n) \<Rightarrow> n | _ \<Rightarrow> d)"

section \<open>The environment and the world\<close>

text \<open>
  The calls into libcryptsetup, the block-device service, the filesystem resizer and the
  operating system are outside the sources. What such a call returns is a field of the
  environment \<open>env\<close>, a function of the call's arguments that stays the same during one
  run; what it changes is written into the \<open>world\<close>: the files, the keyslots of each
  device's header, the two globals that name the device in progress, and the log of the
  calls made, in order. \<open>crypt_free\<close> only releases the context in memory and leaves no
  entry; binary file contents are not modelled (a scratch header reads as the empty
  string).
\<close>

datatype open_mode = ReadOnly | WriteOnly | ReadWrite

text \<open>The three static parameter blocks a reencryption is initialised with.\<close>

datatype reencrypt_params = encryptParams | decryptParams | resumeParams

datatype event =
    Shrink string
  | Expand string
  | RecoverySuperblock string string
  | CryptInit string
  | CryptInitDataDevice string "string option"
  | CryptLoad string
  | FlagsGet string
  | SetRngType string
  | SetDataOffset string
  | CryptFormat string string
  | KeyslotAddByVolumeKey string string
  | ReencryptInit string string reencrypt_params
  | Reencrypt string
  | Activate string string
  | Deactivate string
  | HeaderRestore string string
  | HeaderBackup string string
  | KeyslotChange string string string
  | KeyslotAdd string string string
  | TokenSet string int string
  | SetLabel string string
  | Mkpath string
  | RemoveFile string
  | UpdateEncryptProgress string "64 word" "64 word"
  | UpdateDecryptProgress string "64 word" "64 word"
  | RequestEncryptParams EncryptConfig
  | DeviceReencryptResult string exit_code

record world =
  files :: "string \<Rightarrow> string option"
  keyslots :: "string \<Rightarrow> string option list"
  gCurrReencryptingDevice :: string
  gCurrDecryptintDevice :: string
  trace :: "event list"

record env =
  params_isValid :: "EncryptParams \<Rightarrow> bool"
  stat_isblk :: "string \<Rightarrow> bool option"
  access_ok :: "string \<Rightarrow> bool"
  dir_exists :: "string \<Rightarrow> bool"
  open_ok :: "string \<Rightarrow> open_mode \<Rightarrow> bool"
  posix_fallocate :: "string \<Rightarrow> int"
  lib_load :: bool
  lib_resolve :: bool
  usec_get_recovery_key :: "int \<times> string"
  resolveDeviceNode :: "string \<Rightarrow> string list"
  createDeviceById :: "string \<Rightarrow> blk_dev option"
  getDevices :: "string list"
  crypt_init :: "string \<Rightarrow> int"
  crypt_init_data_device :: "string \<Rightarrow> string option \<Rightarrow> int"
  crypt_load :: "string \<Rightarrow> int"
  crypt_persistent_flags_get :: "string \<Rightarrow> int \<times> 32 word"
  crypt_set_data_offset :: "string \<Rightarrow> int"
  crypt_format :: "string \<Rightarrow> string \<Rightarrow> string \<Rightarrow> string \<Rightarrow> int \<Rightarrow> int"
  crypt_keyslot_add_by_volume_key :: "string \<Rightarrow> string \<Rightarrow> int"
  crypt_reencrypt_init_by_passphrase ::
    "string \<Rightarrow> string option \<Rightarrow> string \<Rightarrow> reencrypt_params \<Rightarrow> int"
  crypt_reencrypt :: "string \<Rightarrow> (64 word \<times> 64 word) list \<times> int"
  crypt_activate_by_passphrase :: "string \<Rightarrow> string \<Rightarrow> string \<Rightarrow> int"
  crypt_deactivate :: "string \<Rightarrow> int"
  crypt_header_restore :: "string \<Rightarrow> string \<Rightarrow> int"
  crypt_header_backup :: "string \<Rightarrow> string \<Rightarrow> int"
  crypt_token_json_set :: "string \<Rightarrow> int \<Rightarrow> string \<Rightarrow> int"
  crypt_set_label :: "string \<Rightarrow> string \<Rightarrow> int"
  recoverySuperblock_ext :: "string \<Rightarrow> string \<Rightarrow> bool"
  fromJson :: "string \<Rightarrow> json_object"
  json_members_compact :: "json_object \<Rightarrow> string"
  json_members_indented :: "json_object \<Rightarrow> string"
  qstring_toInt :: "string \<Rightarrow> int"
  kDisabledEncryptPath :: "string list"
  kEncConfigPath :: string
  token_file_path :: "string \<Rightarrow> string"

definition emit :: "event \<Rightarrow> world \<Rightarrow> world" where
  "emit ev w = w\<lparr>trace := trace w @ [ev]\<rparr>"

text \<open>\<open>::remove(path)\<close>; its return value is never used.\<close>

definition remove_file :: "string \<Rightarrow> world \<Rightarrow> world" where
  "remove_file p w = emit (RemoveFile p) (w\<lparr>files := (files w)(p := None)\<rparr>)"

text \<open>
  \<open>QJsonDocument::toJson\<close> of a document holding an object: the braces are written here,
  the text of the members between them is Qt's.
\<close>

definition toJson_compact :: "env \<Rightarrow> json_object \<Rightarrow> string" where
  "toJson_compact e obj = ''{'' @ json_members_compact e obj @ ''}''"

definition toJson_indented :: "env \<Rightarrow> json_object \<Rightarrow> string" where
  "toJson_indented e obj = ''{'' @ [CHR 0x0A] @ json_members_indented e obj @ ''}'' @ [CHR 0x0A]"

definition toInt :: "env \<Rightarrow> variant option \<Rightarrow> int" where
  "toInt e v =
     (case v of
        None \<Rightarrow> 0
      | Some (VInt n) \<Rightarrow> n
      | Some (VBool b) \<Rightarrow> (if b then 1 else 0)
      | Some (VString s) \<Rightarrow> qstring_toInt e s)"


section \<open>Parameter checks and block-device queries\<close>

definition parseCipher :: "string \<Rightarrow> string \<times> string \<times> int" where
  "parseCipher fullCipher = (fullCipher, ''xts-plain64'', 256)"

definition bcConvertParams :: "QVariantMap \<Rightarrow> EncryptParams" where
  "bcConvertParams params =
     \<lparr> device = toString (qvalue params kKeyDevice),
       passphrase = toString (qvalue params kKeyPassphrase),
       cipher = toString (qvalue params kKeyCipher),
       recoveryPath = toString (qvalue params kKeyRecoveryExportPath),
       tpmToken = toString (qvalue params kKeyTPMToken) \<rparr>"

definition bcValidateParams :: "env \<Rightarrow> EncryptParams \<Rightarrow> bool" where
  "bcValidateParams e params =
     (if \<not> params_isValid e params then False
      else case stat_isblk e (device params) of
             None \<Rightarrow> False
           | Some isblk \<Rightarrow>
               if \<not> isblk then False
               else if recoveryPath params \<noteq> [] \<and> \<not> access_ok e (recoveryPath params)
                 then False
               else True)"

definition bcCreateBlkDev :: "env \<Rightarrow> string \<Rightarrow> blk_dev option" where
  "bcCreateBlkDev e dev =
     (case resolveDeviceNode e dev of
        [] \<Rightarrow> None
      | objPath # _ \<Rightarrow> createDeviceById e objPath)"

definition bcDevEncryptVersion :: "env \<Rightarrow> string \<Rightarrow> EncryptVersion" where
  "bcDevEncryptVersion e dev =
     (case bcCreateBlkDev e dev of
        None \<Rightarrow> kVersionUnknown
      | Some blkDev \<Rightarrow>
          if blk_idType blkDev = ''crypto_LUKS'' then
            (if blk_idVersion blkDev = ''1'' then kVersionLUKS1
             else if blk_idVersion blkDev = ''2'' then kVersionLUKS2
             else kVersionLUKSUnknown)
          else if blk_isEncrypted blkDev then kVersionUnknown
          else kNotEncrypted)"

definition bcIsMounted :: "env \<Rightarrow> string \<Rightarrow> bool" where
  "bcIsMounted e dev =
     (case bcCreateBlkDev e dev of
        None \<Rightarrow> False
      | Some blkDev \<Rightarrow> blk_mountPoints blkDev \<noteq> [])"

section \<open>The recovery key\<close>

definition bcGenRecKey :: "env \<Rightarrow> string" where
  "bcGenRecKey e =
     (if \<not> lib_load e then []
      else if \<not> lib_resolve e then []
      else if fst (usec_get_recovery_key e) \<noteq> 0 then []
      else snd (usec_get_recovery_key e))"

text \<open>
  \<open>QFile::write\<close> on a file opened \<open>ReadWrite\<close> without \<open>Truncate\<close> overwrites from the
  start and keeps what lies beyond the written bytes.
\<close>

definition write_at_start :: "string \<Rightarrow> string \<Rightarrow> world \<Rightarrow> world" where
  "write_at_start p s w =
     w\<lparr>files := (files w)(p \<mapsto> s @ drop (length s) (case files w p of None \<Rightarrow> [] | Some old \<Rightarrow> old))\<rparr>"

text \<open>\<open>QFile::write\<close> on a file opened \<open>WriteOnly | Truncate\<close>.\<close>

definition write_truncate :: "string \<Rightarrow> string \<Rightarrow> world \<Rightarrow> world" where
  "write_truncate p s w = w\<lparr>files := (files w)(p \<mapsto> s)\<rparr>"

text \<open>
  The \<open>while (1)\<close> of \<open>bcExpRecFile\<close> runs its body once: every path through it ends in
  \<open>break\<close> or \<open>return\<close>. The two \<open>arg\<close> calls fill \<open>%1\<close> and \<open>%2\<close> (the export path is
  taken to hold no place marker of its own).
\<close>

definition bcExpRecFile :: "env \<Rightarrow> EncryptParams \<Rightarrow> world \<Rightarrow> string \<times> world" where
  "bcExpRecFile e params w =
     (if recoveryPath params = [] then ([], w)
      else if \<not> dir_exists e (recoveryPath params) then ([], w)
      else
        let recKey = bcGenRecKey e in
        if recKey = [] then ([], w)
        else
          let recFileName = recoveryPath params @ ''/'' @ drop 5 (device params) @ ''_recovery_key.txt'' in
          if \<not> open_ok e recFileName ReadWrite then ([], w)
          else (recKey, write_at_start recFileName recKey w))"

section \<open>Preparing the detached header\<close>

text \<open>
  \<open>open(O_CREAT | O_EXCL | O_WRONLY)\<close> fails when the file exists, and may fail otherwise;
  when it succeeds the file exists from then on (the two reasons for a negative descriptor
  are tested one after the other). The out-parameter \<open>headerPath\<close> is
  passed in and returned.
\<close>

definition bcPrepareHeaderFile ::
  "env \<Rightarrow> string \<Rightarrow> string \<Rightarrow> world \<Rightarrow> (exit_code \<times> string) \<times> world" where
  "bcPrepareHeaderFile e dev headerPath w =
     (let localPath = ''/tmp/'' @ drop 5 dev @ ''_luks2_pre_enc'' in
      if files w localPath \<noteq> None then ((Neg kErrorOpenFileFailed, headerPath), w)
      else if \<not> open_ok e localPath WriteOnly then ((Neg kErrorOpenFileFailed, headerPath), w)
      else
        let w = w\<lparr>files := (files w)(localPath \<mapsto> [])\<rparr> in
        if posix_fallocate e localPath \<noteq> 0 then ((Neg kErrorCreateHeader, headerPath), w)
        else ((kSuccess, localPath), w))"

text \<open>
  The statements of \<open>bcDoSetupHeader\<close> that the scope guard \<open>finalClear\<close> covers. The result
  is the returned code with the three out-parameters, and the value the local \<open>ret\<close> holds
  when the function leaves, which is what the guard tests.
\<close>

definition doSetupHeader_body ::
  "env \<Rightarrow> EncryptParams \<Rightarrow> string \<Rightarrow> string \<Rightarrow> int \<Rightarrow> int \<Rightarrow> world
     \<Rightarrow> ((exit_code \<times> string \<times> int \<times> int) \<times> int) \<times> world" where
  "doSetupHeader_body e params localPath headerPath keyslotCipher keyslotRecKey w =
     (let dev = device params; pass = passphrase params;
          ret = crypt_init e localPath;
          w = emit (CryptInit localPath) w in
      if ret < 0 then (((Neg kErrorInitCrypt, headerPath, keyslotCipher, keyslotRecKey), ret), w)
      else
      let w = emit (SetRngType localPath) w;
          ret = crypt_set_data_offset e localPath;
          w = emit (SetDataOffset localPath) w in
      if ret < 0 then (((Neg kErrorSetOffset, headerPath, keyslotCipher, keyslotRecKey), ret), w)
      else
      let (ciph, cmode, keyLen) = parseCipher (cipher params);
          ret = crypt_format e localPath dev ciph cmode (keyLen div 8);
          w = emit (CryptFormat localPath dev) w in
      if ret < 0 then (((Neg kErrorFormatLuks, headerPath, keyslotCipher, keyslotRecKey), ret), w)
      else
      let ret = crypt_keyslot_add_by_volume_key e localPath pass;
          w = emit (KeyslotAddByVolumeKey localPath pass) w in
      if ret < 0 then (((Neg kErrorAddKeyslot, headerPath, keyslotCipher, keyslotRecKey), ret), w)
      else
      let keyslotCipher = ret;
          (recKey, w) = bcExpRecFile e params w;
          (ret, keyslotRecKey, w) =
             (if recKey \<noteq> [] then
                (crypt_keyslot_add_by_volume_key e localPath recKey,
                 crypt_keyslot_add_by_volume_key e localPath recKey,
                 emit (KeyslotAddByVolumeKey localPath recKey) w)
              else (ret, keyslotRecKey, w));
          ret = crypt_reencrypt_init_by_passphrase e localPath None pass encryptParams;
          w = emit (ReencryptInit localPath pass encryptParams) w in
      if ret < 0 then (((Neg kErrorInitReencrypt, headerPath, keyslotCipher, keyslotRecKey), ret), w)
      else
      let activeDev = ''dm-'' @ drop 5 dev;
          ret = crypt_activate_by_passphrase e localPath activeDev pass;
          w = emit (Activate localPath activeDev) w in
      if ret < 0 then (((Neg kErrorActive, headerPath, keyslotCipher, keyslotRecKey), ret), w)
      else
      let w = emit (Expand (''/dev/mapper/'' @ activeDev)) w;
          ret = crypt_deactivate e activeDev;
          w = emit (Deactivate activeDev) w in
      if ret < 0 then (((Neg kErrorDeactive, headerPath, keyslotCipher, keyslotRecKey), ret), w)
      else (((kSuccess, localPath, keyslotCipher, keyslotRecKey), ret), w))"

text \<open>The scope guard of \<open>bcDoSetupHeader\<close>, run when the function leaves.\<close>

definition doSetupHeader_finalClear :: "EncryptParams \<Rightarrow> string \<Rightarrow> int \<Rightarrow> world \<Rightarrow> world" where
  "doSetupHeader_finalClear params localPath ret w =
     (if ret < 0 then emit (Expand (device params)) (remove_file localPath w) else w)"

definition bcDoSetupHeader ::
  "env \<Rightarrow> EncryptParams \<Rightarrow> string \<Rightarrow> int \<Rightarrow> int \<Rightarrow> world
     \<Rightarrow> (exit_code \<times> string \<times> int \<times> int) \<times> world" where
  "bcDoSetupHeader e params headerPath keyslotCipher keyslotRecKey w =
     (let ((ret0, localPath), w) = bcPrepareHeaderFile e (device params) [] w in
      if localPath = [] then ((Neg kErrorCreateHeader, headerPath, keyslotCipher, keyslotRecKey), w)
      else
        let w = emit (Shrink (device params)) w;
            ((res, ret), w) =
               doSetupHeader_body e params localPath headerPath keyslotCipher keyslotRecKey w
        in (res, doSetupHeader_finalClear params localPath ret w))"

definition bcInitHeaderFile ::
  "env \<Rightarrow> EncryptParams \<Rightarrow> string \<Rightarrow> int \<Rightarrow> int \<Rightarrow> world
     \<Rightarrow> (exit_code \<times> string \<times> int \<times> int) \<times> world" where
  "bcInitHeaderFile e params headerPath keyslotCipher keyslotRecKey w =
     (if \<not> bcValidateParams e params
        then ((Neg kErrorParamsInvalid, headerPath, keyslotCipher, keyslotRecKey), w)
      else if bcDevEncryptVersion e (device params) \<noteq> kNotEncrypted
        then ((Neg kErrorDeviceEncrypted, headerPath, keyslotCipher, keyslotRecKey), w)
      else if bcIsMounted e (device params)
        then ((Neg kErrorDeviceMounted, headerPath, keyslotCipher, keyslotRecKey), w)
      else bcDoSetupHeader e params headerPath keyslotCipher keyslotRecKey w)"

text \<open>
  \<open>bcInitHeaderDevice\<close>: its scope guard removes the header file whenever the path is not
  empty, on every way out.
\<close>

definition bcInitHeaderDevice :: "env \<Rightarrow> string \<Rightarrow> string \<Rightarrow> string \<Rightarrow> world \<Rightarrow> exit_code \<times> world" where
  "bcInitHeaderDevice e dev pass headerPath w =
     (let finalClear = (\<lambda>w. if headerPath \<noteq> [] then remove_file headerPath w else w);
          ret = crypt_init e dev;
          w = emit (CryptInit dev) w in
      if ret < 0 then (Neg kErrorInitCrypt, finalClear w)
      else
        let ret = crypt_header_restore e dev headerPath;
            w = emit (HeaderRestore dev headerPath) w in
        if ret < 0 then (Neg kErrorRestoreFromFile, finalClear w)
        else (kSuccess, finalClear w))"


section \<open>Persistent requirement flags\<close>

text \<open>The requirement bits of \<open>libcryptsetup.h\<close>.\<close>

definition CRYPT_REQUIREMENT_OFFLINE_REENCRYPT :: "32 word" where
  "CRYPT_REQUIREMENT_OFFLINE_REENCRYPT = push_bit 0 1"

definition CRYPT_REQUIREMENT_ONLINE_REENCRYPT :: "32 word" where
  "CRYPT_REQUIREMENT_ONLINE_REENCRYPT = push_bit 1 1"

definition CRYPT_REQUIREMENT_UNKNOWN :: "32 word" where
  "CRYPT_REQUIREMENT_UNKNOWN = push_bit 31 1"

definition CRYPT_ANY_TOKEN :: int where
  "CRYPT_ANY_TOKEN = - 1"

text \<open>The out-parameter \<open>status\<close> is passed in and returned.\<close>

definition bcDevEncryptStatus ::
  "env \<Rightarrow> string \<Rightarrow> EncryptStatus \<Rightarrow> world \<Rightarrow> (exit_code \<times> EncryptStatus) \<times> world" where
  "bcDevEncryptStatus e dev status w =
     (let ret = crypt_init e dev;
          w = emit (CryptInit dev) w in
      if ret < 0 then ((Neg kErrorInitCrypt, status), w)
      else
      let ret = crypt_load e dev;
          w = emit (CryptLoad dev) w in
      if ret < 0 then ((Neg kErrorLoadCrypt, status), w)
      else
      let (ret, flags) = crypt_persistent_flags_get e dev;
          w = emit (FlagsGet dev) w in
      if ret < 0 then ((Neg kErrorGetReencryptFlag, status), w)
      else
      let status = kStatusFinished;
          status = (if flags AND CRYPT_REQUIREMENT_OFFLINE_REENCRYPT \<noteq> 0
                    then kStatusOfflineUnfinished else status);
          status = (if flags AND CRYPT_REQUIREMENT_ONLINE_REENCRYPT \<noteq> 0
                    then kStatusOnlineUnfinished else status);
          status = (if flags AND CRYPT_REQUIREMENT_UNKNOWN \<noteq> 0
                    then kStatusUnknown else status)
      in ((kSuccess, status), w))"

section \<open>The reencryption driver\<close>

text \<open>
  The two progress callbacks. The published value is \<open>double(offset) / size\<close>; the log
  keeps the two operands of that division next to the device name read from the global.
\<close>

definition bcEncryptProgress :: "64 word \<Rightarrow> 64 word \<Rightarrow> world \<Rightarrow> world" where
  "bcEncryptProgress sz offset w =
     emit (UpdateEncryptProgress (gCurrReencryptingDevice w) offset sz) w"


text \<open>
  \<open>crypt_reencrypt(cdev, callback)\<close> calls the callback with (size, offset) as the work
  advances and goes on while the callback returns 0, which both callbacks always do; the
  environment gives the pairs and the value returned at the end.
\<close>

definition run_reencrypt ::
  "env \<Rightarrow> string \<Rightarrow> (64 word \<Rightarrow> 64 word \<Rightarrow> world \<Rightarrow> world) \<Rightarrow> world \<Rightarrow> int \<times> world" where
  "run_reencrypt e hdr callback w =
     (snd (crypt_reencrypt e hdr),
      fold (\<lambda>(sz, offset). callback sz offset) (fst (crypt_reencrypt e hdr))
        (emit (Reencrypt hdr) w))"

text \<open>
  \<open>bcResumeReencrypt\<close> without its scope guard: the statements after the guard is set up.
\<close>

definition resumeReencrypt_body ::
  "env \<Rightarrow> string \<Rightarrow> string \<Rightarrow> string \<Rightarrow> bool \<Rightarrow> world \<Rightarrow> exit_code \<times> world" where
  "resumeReencrypt_body e dev pass clearDevice expandFs w =
     (let ret = crypt_init_data_device e dev (Some dev);
          w = emit (CryptInitDataDevice dev (Some dev)) w in
      if ret < 0 then (Neg kErrorInitCrypt, w)
      else
      let ret = crypt_load e dev;
          w = emit (CryptLoad dev) w in
      if ret < 0 then (Neg kErrorLoadCrypt, w)
      else
      let (ret, flags) = crypt_persistent_flags_get e dev;
          w = emit (FlagsGet dev) w in
      if ret < 0 then (Neg kErrorGetReencryptFlag, w)
      else if flags AND CRYPT_REQUIREMENT_ONLINE_REENCRYPT = 0 then (Neg kErrorWrongFlags, w)
      else
      let clearDev' = (if clearDevice = [] then None else Some clearDevice);
          ret = crypt_reencrypt_init_by_passphrase e dev clearDev' pass resumeParams;
          w = emit (ReencryptInit dev pass resumeParams) w in
      if ret < 0 then (Neg kErrorInitReencrypt, w)
      else
      let (ret, w) = run_reencrypt e dev bcEncryptProgress w in
      if ret < 0 then (Neg kErrorReencryptFailed, w)
      else if \<not> expandFs then (kSuccess, w)
      else
      let activeDev = ''dm-'' @ drop 5 dev;
          ret = crypt_activate_by_passphrase e dev activeDev pass;
          w = emit (Activate dev activeDev) w in
      if ret < 0 then (Neg kErrorActive, w)
      else
      let w = emit (Expand (''/dev/mapper/'' @ activeDev)) w;
          ret = crypt_deactivate e activeDev;
          w = emit (Deactivate activeDev) w in
      if ret < 0 then (Neg kErrorDeactive, w)
      else (kSuccess, w))"

text \<open>
  The global is set first; the scope guard, run on every way out, clears the other global,
  \<open>gCurrDecryptintDevice\<close>, as the source has it.
\<close>

definition bcResumeReencrypt ::
  "env \<Rightarrow> string \<Rightarrow> string \<Rightarrow> string \<Rightarrow> bool \<Rightarrow> world \<Rightarrow> exit_code \<times> world" where
  "bcResumeReencrypt e dev pass clearDevice expandFs w =
     (let w = w\<lparr>gCurrReencryptingDevice := dev\<rparr>;
          (res, w) = resumeReencrypt_body e dev pass clearDevice expandFs w
      in (res, w\<lparr>gCurrDecryptintDevice := []\<rparr>))"




section \<open>Keyslots, tokens and the label\<close>

text \<open>
  The contract of the two keyslot calls of libcryptsetup with \<open>CRYPT_ANY_SLOT\<close>, on the
  keyslot table of a header (\<open>None\<close> is a free slot). Changing a passphrase opens the
  first slot the old passphrase unlocks, writes the new one into the first free slot, or
  into the same slot when none is free, and then destroys the old slot; adding one needs
  a slot the given passphrase unlocks and a free slot. Both return the slot written, or
  a negative errno.
\<close>

fun find_slot :: "'a list \<Rightarrow> 'a \<Rightarrow> nat option" where
  "find_slot [] x = None"
| "find_slot (y # ys) x = (if y = x then Some 0 else map_option Suc (find_slot ys x))"

definition keyslot_change_by_passphrase ::
  "string option list \<Rightarrow> string \<Rightarrow> string \<Rightarrow> int \<times> string option list" where
  "keyslot_change_by_passphrase slots old new =
     (case find_slot slots (Some old) of
        None \<Rightarrow> (- 1, slots)
      | Some ko \<Rightarrow>
          let kn = (case find_slot slots None of None \<Rightarrow> ko | Some k \<Rightarrow> k) in
          (int kn, if kn = ko then slots[kn := Some new] else (slots[kn := Some new])[ko := None]))"

definition keyslot_add_by_passphrase ::
  "string option list \<Rightarrow> string \<Rightarrow> string \<Rightarrow> int \<times> string option list" where
  "keyslot_add_by_passphrase slots pass new =
     (case find_slot slots (Some pass) of
        None \<Rightarrow> (- 1, slots)
      | Some _ \<Rightarrow>
          (case find_slot slots None of
             None \<Rightarrow> (- 22, slots)
           | Some kn \<Rightarrow> (int kn, slots[kn := Some new])))"

text \<open>The out-parameter \<open>keyslot\<close> is passed in and returned.\<close>

definition bcChangePassphrase ::
  "env \<Rightarrow> string \<Rightarrow> string \<Rightarrow> string \<Rightarrow> int \<Rightarrow> world \<Rightarrow> (exit_code \<times> int) \<times> world" where
  "bcChangePassphrase e dev oldPassphrase newPassphrase keyslot w =
     (let ret = crypt_init_data_device e dev None;
          w = emit (CryptInitDataDevice dev None) w in
      if ret < 0 then ((Neg kErrorInitCrypt, keyslot), w)
      else
      let ret = crypt_load e dev;
          w = emit (CryptLoad dev) w in
      if ret < 0 then ((Neg kErrorLoadCrypt, keyslot), w)
      else
      let (ret, slots) = keyslot_change_by_passphrase (keyslots w dev) oldPassphrase newPassphrase;
          w = emit (KeyslotChange dev oldPassphrase newPassphrase)
                (w\<lparr>keyslots := (keyslots w)(dev := slots)\<rparr>) in
      if ret < 0 then ((Neg kErrorChangePassphraseFailed, keyslot), w)
      else ((kSuccess, ret), w))"

definition bcChangePassphraseByRecKey ::
  "env \<Rightarrow> string \<Rightarrow> string \<Rightarrow> string \<Rightarrow> int \<Rightarrow> world \<Rightarrow> (exit_code \<times> int) \<times> world" where
  "bcChangePassphraseByRecKey e dev recoveryKey newPassphrase keyslot w =
     (let ret = crypt_init_data_device e dev None;
          w = emit (CryptInitDataDevice dev None) w in
      if ret < 0 then ((Neg kErrorInitCrypt, keyslot), w)
      else
      let ret = crypt_load e dev;
          w = emit (CryptLoad dev) w in
      if ret < 0 then ((Neg kErrorLoadCrypt, keyslot), w)
      else
      let (ret, slots) = keyslot_add_by_passphrase (keyslots w dev) recoveryKey newPassphrase;
          w = emit (KeyslotAdd dev recoveryKey newPassphrase)
                (w\<lparr>keyslots := (keyslots w)(dev := slots)\<rparr>) in
      if ret < 0 then ((Neg kErrorAddKeyslot, keyslot), w)
      else ((kSuccess, ret), w))"

definition bcSetToken :: "env \<Rightarrow> string \<Rightarrow> string \<Rightarrow> world \<Rightarrow> exit_code \<times> world" where
  "bcSetToken e dev token w =
     (if token = [] then (kSuccess, w)
      else
      let tokenIndex = json_toInt (fromJson e token) ''token_index'' CRYPT_ANY_TOKEN;
          ret = crypt_init e dev;
          w = emit (CryptInit dev) w in
      if ret < 0 then (Neg kErrorInitCrypt, w)
      else
      let ret = crypt_load e dev;
          w = emit (CryptLoad dev) w in
      if ret < 0 then (Neg kErrorLoadCrypt, w)
      else
      let ret = crypt_token_json_set e dev tokenIndex token;
          w = emit (TokenSet dev tokenIndex token) w in
      if ret < 0 then (Neg kErrorSetTokenFailed, w)
      else (kSuccess, w))"

definition bcSetLabel :: "env \<Rightarrow> string \<Rightarrow> string \<Rightarrow> world \<Rightarrow> exit_code \<times> world" where
  "bcSetLabel e dev label w =
     (let ret = crypt_init e dev;
          w = emit (CryptInit dev) w in
      if ret < 0 then (Neg kErrorInitCrypt, w)
      else
      let ret = crypt_load e dev;
          w = emit (CryptLoad dev) w in
      if ret < 0 then (Neg kErrorLoadCrypt, w)
      else
      let ret = crypt_set_label e dev label;
          w = emit (SetLabel dev label) w in
      if ret < 0 then (Neg kErrorSetLabel, w)
      else (kSuccess, w))"

section \<open>Lines and fields\<close>

text \<open>
  \<open>QByteArray::split\<close> keeps empty parts, so a text that ends in the separator has an
  empty last part and the empty text has one empty part.
\<close>

fun split_where :: "('a \<Rightarrow> bool) \<Rightarrow> 'a list \<Rightarrow> 'a list list" where
  "split_where P [] = [[]]"
| "split_where P (c # cs) =
     (if P c then [] # split_where P cs
      else (case split_where P cs of
              [] \<Rightarrow> [[c]]
            | l # ls \<Rightarrow> (c # l) # ls))"

definition split_lines :: "string \<Rightarrow> string list" where
  "split_lines s = split_where (\<lambda>c. c = CHR 0x0A) s"

text \<open>Splitting at every tab and space with \<open>QString::SkipEmptyParts\<close>.\<close>

definition split_fields :: "string \<Rightarrow> string list" where
  "split_fields s = filter (\<lambda>t. t \<noteq> []) (split_where (\<lambda>c. c = CHR 0x09 \<or> c = CHR '' '') s)"

fun join :: "'a list \<Rightarrow> 'a list list \<Rightarrow> 'a list" where
  "join sep [] = []"
| "join sep [l] = l"
| "join sep (l # l' # ls) = l @ sep @ join sep (l' # ls)"

fun starts_with :: "'a list \<Rightarrow> 'a list \<Rightarrow> bool" where
  "starts_with s [] = True"
| "starts_with [] (x # p) = False"
| "starts_with (c # s) (x # p) = (c = x \<and> starts_with s p)"

fun contains :: "'a list \<Rightarrow> 'a list \<Rightarrow> bool" where
  "contains [] p = (p = [])"
| "contains (c # s) p = (starts_with (c # s) p \<or> contains s p)"

text \<open>\<open>QString::replace\<close> of two slashes by one: every occurrence, found from the left.\<close>

fun replace_dslash :: "string \<Rightarrow> string" where
  "replace_dslash (a # b # cs) =
     (if a = CHR ''/'' \<and> b = CHR ''/'' then CHR ''/'' # replace_dslash cs
      else a # replace_dslash (b # cs))"
| "replace_dslash cs = cs"

section \<open>The change-passphrase worker\<close>

text \<open>
  The class \<open>Worker\<close> is not among the sources: a worker's exit code is the value last
  given to \<open>setExitCode\<close>, so each \<open>run\<close> takes the code the worker holds and returns the
  one it ends with.
\<close>

definition updateTokenKeyslots :: "env \<Rightarrow> string \<Rightarrow> int \<Rightarrow> string" where
  "updateTokenKeyslots e token keyslot =
     toJson_compact e
       (json_insert ''keyslots'' (JArray [JString (string_of_int keyslot)]) (fromJson e token))"

definition ChgPassWorker_run :: "env \<Rightarrow> QVariantMap \<Rightarrow> world \<Rightarrow> exit_code \<times> world" where
  "ChgPassWorker_run e params w =
     (let dev = toString (qvalue params kKeyDevice);
          oldPass = toString (qvalue params kKeyOldPassphrase);
          newPass = toString (qvalue params kKeyPassphrase);
          newSlot = 0;
          ((ret, newSlot), w) =
             (if toBool (qvalue params kKeyValidateWithRecKey)
              then bcChangePassphraseByRecKey e dev oldPass newPass newSlot w
              else bcChangePassphrase e dev oldPass newPass newSlot w);
          token = toString (qvalue params kKeyTPMToken)
      in
      if token \<noteq> [] \<and> ret = kSuccess then
        let token = updateTokenKeyslots e token newSlot;
            (ret, w) = bcSetToken e dev token w
        in if ret \<noteq> kSuccess
           then (ret, snd (bcChangePassphrase e dev newPass oldPass newSlot w))
           else (ret, w)
      else (ret, w))"

section \<open>The boot-time resume worker\<close>

definition validateParams :: "EncryptConfig \<Rightarrow> QVariantMap \<Rightarrow> bool" where
  "validateParams config params =
     (if params = [] then False
      else if toString (qvalue params kKeyDevice) \<noteq> devicePath config then False
      else if toString (qvalue params kKeyPassphrase) = [] then False
      else True)"

definition hasUnfinishedOnlineEncryption :: "env \<Rightarrow> EncryptConfig \<Rightarrow> world \<Rightarrow> bool \<times> world" where
  "hasUnfinishedOnlineEncryption e config w =
     (if devicePath config = [] then (False, w)
      else
        let ((ret, status), w) = bcDevEncryptStatus e (devicePath config) kStatusFinished w in
        if ret \<noteq> kSuccess then (False, w)
        else (case status of kStatusOnlineUnfinished \<Rightarrow> (True, w) | _ \<Rightarrow> (False, w)))"

text \<open>
  The polling loop of \<open>run\<close>. The facade changes the worker's \<open>params\<close> from another
  thread; the list holds the value of \<open>params\<close> at each test of the loop, in order. The
  loop leaves with the first value that validates, having asked for parameters once for
  every earlier one. \<open>None\<close> is the loop still waiting when the list ends. The steps after
  the loop read the value the loop left with.
\<close>

fun await_params ::
  "EncryptConfig \<Rightarrow> QVariantMap list \<Rightarrow> world \<Rightarrow> (QVariantMap \<times> world) option" where
  "await_params config [] w = None"
| "await_params config (params # later) w =
     (if validateParams config params then Some (params, w)
      else await_params config later (emit (RequestEncryptParams config) w))"

definition setPassphrase ::
  "env \<Rightarrow> EncryptConfig \<Rightarrow> QVariantMap \<Rightarrow> exit_code \<Rightarrow> world \<Rightarrow> exit_code \<times> world" where
  "setPassphrase e config params exitCode w =
     (let pass = toString (qvalue params kKeyPassphrase);
          token = toString (qvalue params kKeyTPMToken);
          ((ret, passKeyslot), w) = bcChangePassphrase e (devicePath config) [] pass (- 1) w
      in
      if ret \<noteq> kSuccess then (ret, w)
      else if token \<noteq> [] then
        let (ret, w) = bcSetToken e (devicePath config) (updateTokenKeyslots e token passKeyslot) w
        in if ret \<noteq> kSuccess then (ret, w) else (exitCode, w)
      else (exitCode, w))"

text \<open>The text of the recovery-key token, with its single quotes.\<close>

definition recovery_token :: "int \<Rightarrow> string" where
  "recovery_token slot =
     (let q = [CHR 0x27] in
      ''{ '' @ q @ ''type'' @ q @ '': '' @ q @ ''usec-recoverykey'' @ q @ '', '' @ q @ ''keyslots'' @ q
        @ '': ['' @ q @ string_of_int slot @ q @ ''] }'')"

definition setRecoveryKey ::
  "env \<Rightarrow> EncryptConfig \<Rightarrow> QVariantMap \<Rightarrow> exit_code \<Rightarrow> world \<Rightarrow> exit_code \<times> world" where
  "setRecoveryKey e config params exitCode w =
     (let pass = toString (qvalue params kKeyPassphrase);
          recPath = toString (qvalue params kKeyRecoveryExportPath)
      in
      if recPath = [] then (exitCode, w)
      else
        let param = \<lparr> device = devicePath config, passphrase = [], cipher = [],
                      recoveryPath = recPath, tpmToken = [] \<rparr>;
            (recPass, w) = bcExpRecFile e param w
        in
        if recPass = [] then (exitCode, w)
        else
          let ((ret, recKeySlot), w) =
                 bcChangePassphraseByRecKey e (devicePath config) pass recPass (- 1) w
          in
          if ret \<noteq> kSuccess then (ret, w)
          else
            let (ret, w) = bcSetToken e (devicePath config) (recovery_token recKeySlot) w
            in if ret \<noteq> kSuccess then (ret, w) else (exitCode, w))"

definition setBakcingDevLabel :: "env \<Rightarrow> EncryptConfig \<Rightarrow> world \<Rightarrow> world" where
  "setBakcingDevLabel e config w = snd (bcSetLabel e (devicePath config) (deviceName config) w)"

text \<open>
  The loop of the worker's \<open>updateCrypttab\<close>: the first line that names the device is
  tagged if it is not tagged yet, and the loop stops at that line either way.
\<close>

fun tag_first_line :: "string \<Rightarrow> string list \<Rightarrow> string list \<times> bool" where
  "tag_first_line srcDev [] = ([], False)"
| "tag_first_line srcDev (line # lines) =
     (if contains line srcDev then
        (if \<not> contains line ''tpm2-device=auto''
         then ((line @ '',tpm2-device=auto'') # lines, True)
         else (line # lines, False))
      else (let (lines', updated) = tag_first_line srcDev lines in (line # lines', updated)))"

definition ReencryptWorkerV2_updateCrypttab :: "env \<Rightarrow> QVariantMap \<Rightarrow> world \<Rightarrow> world" where
  "ReencryptWorkerV2_updateCrypttab e params w =
     (let tpmTok = toString (qvalue params kKeyTPMToken) in
      if tpmTok = [] then w
      else case files w ''/etc/crypttab'' of
        None \<Rightarrow> w
      | Some contents \<Rightarrow>
          if \<not> open_ok e ''/etc/crypttab'' ReadOnly then w
          else
            let srcDev = ''UUID='' @ toString (qvalue params kKeyBackingDevUUID);
                (lines, crypttabUpdated) = tag_first_line srcDev (split_lines contents)
            in
            if \<not> crypttabUpdated then w
            else if \<not> open_ok e ''/etc/crypttab'' WriteOnly then w
            else write_truncate ''/etc/crypttab'' (join [CHR 0x0A] lines) w)"

definition removeEncryptFile :: "env \<Rightarrow> world \<Rightarrow> world" where
  "removeEncryptFile e w = remove_file (kEncConfigPath e) w"

definition ReencryptWorkerV2_run ::
  "env \<Rightarrow> EncryptConfig \<Rightarrow> QVariantMap list \<Rightarrow> exit_code \<Rightarrow> world \<Rightarrow> (exit_code \<times> world) option" where
  "ReencryptWorkerV2_run e config supplied exitCode w =
     (let (unfinished, w) = hasUnfinishedOnlineEncryption e config w in
      if \<not> unfinished then Some (exitCode, w)
      else
        case await_params config supplied w of
          None \<Rightarrow> None
        | Some (params, w) \<Rightarrow>
            let (ret, w) = bcResumeReencrypt e (devicePath config) [] (clearDev config) False w;
                (exitCode, w) =
                   (if ret = kSuccess then
                      let (exitCode, w) = setPassphrase e config params exitCode w;
                          (exitCode, w) = setRecoveryKey e config params exitCode w;
                          w = setBakcingDevLabel e config w;
                          w = ReencryptWorkerV2_updateCrypttab e params w;
                          w = removeEncryptFile e w
                      in (exitCode, w)
                    else (ret, w))
            in Some (exitCode, emit (DeviceReencryptResult (devicePath config) ret) w))"

section \<open>The prepare-encrypt worker\<close>

definition kBootUsecPath :: string where
  "kBootUsecPath = ''/boot/usec-crypt''"

definition createUsecPathIfNotExist :: "env \<Rightarrow> world \<Rightarrow> world" where
  "createUsecPathIfNotExist e w =
     (if \<not> dir_exists e kBootUsecPath then emit (Mkpath kBootUsecPath) w else w)"

text \<open>The static map \<open>encMode\<close>; \<open>QMap::value\<close> of a missing key is the empty string.\<close>

definition encMode :: "int \<Rightarrow> string" where
  "encMode m = (if m = 0 then ''pin'' else if m = 1 then ''tpm-pin'' else if m = 2 then ''tpm'' else [])"

text \<open>The object \<open>writeEncryptParams\<close> builds, insertion by insertion.\<close>

definition encryptParamsObject :: "env \<Rightarrow> QVariantMap \<Rightarrow> json_object" where
  "encryptParamsObject e params =
     (let dev = toString (qvalue params kKeyDevice);
          dmDev = ''dm-'' @ drop 5 dev;
          uuid = ''UUID='' @ toString (qvalue params kKeyUUID);
          obj = [];
          obj = json_insert ''volume'' (JString dmDev) obj;
          obj = json_insert ''device'' (JString uuid) obj;
          obj = json_insert ''device-path'' (JString dev) obj;
          obj = json_insert ''device-name'' (JString (toString (qvalue params kKeyDeviceName))) obj;
          obj = json_insert ''device-mountpoint'' (JString (toString (qvalue params kKeyMountPoint))) obj;
          obj = json_insert ''cipher'' (JString (toString (qvalue params kKeyCipher) @ ''-xts-plain64'')) obj;
          obj = json_insert ''key-size'' (JString ''256'') obj;
          obj = json_insert ''mode'' (JString (encMode (toInt e (qvalue params kKeyEncMode)))) obj;
          expPath = toString (qvalue params kKeyRecoveryExportPath);
          expPath = (if expPath \<noteq> []
                     then replace_dslash (expPath @ ''/recovery_key_'' @ drop 5 dev @ ''.txt'')
                     else expPath);
          obj = json_insert ''recoverykey-path'' (JString expPath) obj;
          obj = json_insert ''tpm-config'' (JObject (fromJson e (toString (qvalue params kKeyTPMConfig)))) obj
      in obj)"

definition encrypt_json_path :: string where
  "encrypt_json_path = kBootUsecPath @ ''/encrypt.json''"

definition writeEncryptParams :: "env \<Rightarrow> QVariantMap \<Rightarrow> world \<Rightarrow> exit_code \<times> world" where
  "writeEncryptParams e params w =
     (let obj = encryptParamsObject e params;
          w = createUsecPathIfNotExist e w in
      if \<not> open_ok e encrypt_json_path WriteOnly then (Neg kErrorOpenFileFailed, w)
      else (kSuccess, write_truncate encrypt_json_path (toJson_indented e obj) w))"

definition kTimeoutParam :: string where
  "kTimeoutParam = ''x-systemd.device-timeout=0''"

text \<open>
  The loop of \<open>setFstabTimeout\<close> over the lines of the table, with the flag \<open>foundItem\<close>.
  \<open>items[0]\<close> and \<open>items[3]\<close> are read only where the line has six fields.
\<close>

fun fstab_loop :: "string \<Rightarrow> string \<Rightarrow> string list \<Rightarrow> bool \<Rightarrow> string list list \<times> bool" where
  "fstab_loop devDesc devUUID [] foundItem = ([], foundItem)"
| "fstab_loop devDesc devUUID (line # lines) foundItem =
     (let items = split_fields line;
          (items, foundItem) =
            (if length items = 6 \<and> (items ! 0 = devDesc \<or> items ! 0 = devUUID) \<and> \<not> foundItem
             then (if \<not> contains (items ! 3) kTimeoutParam
                   then (items[3 := items ! 3 @ '','' @ kTimeoutParam], True)
                   else (items, foundItem))
             else (items, foundItem));
          (fstabItems, foundItem) = fstab_loop devDesc devUUID lines foundItem
      in (items # fstabItems, foundItem))"

definition fstab_contents :: "string list list \<Rightarrow> string" where
  "fstab_contents fstabItems = concat (map (\<lambda>items. join [CHR 0x09] items @ [CHR 0x0A]) fstabItems)"

text \<open>
  \<open>setFstabTimeout\<close> returns the positive \<open>kErrorOpenFstabFailed\<close> or \<open>kSuccess\<close>, here
  \<open>Some kErrorOpenFstabFailed\<close> or \<open>None\<close>; its caller drops the value.
\<close>

definition setFstabTimeout :: "env \<Rightarrow> QVariantMap \<Rightarrow> world \<Rightarrow> error_kind option \<times> world" where
  "setFstabTimeout e params w =
     (case files w ''/etc/fstab'' of
        None \<Rightarrow> (Some kErrorOpenFstabFailed, w)
      | Some fstabContents \<Rightarrow>
          if \<not> open_ok e ''/etc/fstab'' ReadOnly then (Some kErrorOpenFstabFailed, w)
          else
            let devDesc = toString (qvalue params kKeyDevice);
                devUUID = ''UUID='' @ toString (qvalue params kKeyUUID);
                (fstabItems, foundItem) = fstab_loop devDesc devUUID (split_lines fstabContents) False
            in
            if foundItem then
              (if \<not> open_ok e ''/etc/fstab'' ReadWrite then (Some kErrorOpenFstabFailed, w)
               else (None, write_truncate ''/etc/fstab'' (fstab_contents fstabItems) w))
            else (None, w))"

text \<open>
  \<open>QStringList::contains\<close> without regard to case, on the list \<open>kDisabledEncryptPath\<close>
  (a constant of a header that is not among the sources, taken from the environment).
\<close>

definition contains_nocase :: "string list \<Rightarrow> string \<Rightarrow> bool" where
  "contains_nocase xs s = (map to_lower s \<in> set (map (map to_lower) xs))"

text \<open>
  The worker's fields \<open>keyslotCipher\<close> and \<open>keyslotRecKey\<close> are passed in and returned next
  to the exit code.
\<close>

definition PrencryptWorker_run ::
  "env \<Rightarrow> QVariantMap \<Rightarrow> exit_code \<times> int \<times> int \<Rightarrow> world \<Rightarrow> (exit_code \<times> int \<times> int) \<times> world" where
  "PrencryptWorker_run e params st w =
     (let (exitCode, keyslotCipher, keyslotRecKey) = st;
          mpt = toString (qvalue params kKeyMountPoint) in
      if contains_nocase (kDisabledEncryptPath e) mpt
        then ((Neg kErrorDisabledMountPoint, keyslotCipher, keyslotRecKey), w)
      else if toBool (qvalue params kKeyInitParamsOnly) then
        let (exitCode, w) = writeEncryptParams e params w;
            w = snd (setFstabTimeout e params w)
        in ((exitCode, keyslotCipher, keyslotRecKey), w)
      else
        let encParams = bcConvertParams params in
        if \<not> bcValidateParams e encParams
          then ((Neg kErrorParamsInvalid, keyslotCipher, keyslotRecKey), w)
        else
          let ((err, localHeaderFile, keyslotCipher, keyslotRecKey), w) =
                 bcInitHeaderFile e encParams [] keyslotCipher keyslotRecKey w in
          if err \<noteq> kSuccess then ((Neg kErrorCreateHeader, keyslotCipher, keyslotRecKey), w)
          else if localHeaderFile = [] then ((Neg kErrorCreateHeader, keyslotCipher, keyslotRecKey), w)
          else
            let (ret, w) = bcInitHeaderDevice e (device encParams) (passphrase encParams) localHeaderFile w in
            if ret \<noteq> kSuccess then ((Neg kErrorApplyHeader, keyslotCipher, keyslotRecKey), w)
            else if tpmToken encParams \<noteq> [] then
              (let f = token_file_path e (drop 5 (device encParams)) in
               if \<not> open_ok e f WriteOnly then ((exitCode, keyslotCipher, keyslotRecKey), w)
               else ((exitCode, keyslotCipher, keyslotRecKey), write_truncate f (tpmToken encParams) w))
            else ((exitCode, keyslotCipher, keyslotRecKey), w))"

section \<open>Reconciling the boot-unlock table\<close>

text \<open>
  \<open>getDeviceMapper\<close>, the half of it that \<open>isEncrypted\<close> reads: the map from
  \<open>UUID=...\<close> to the device, a later device replacing an earlier one of the same UUID.
\<close>

definition uuid2dev :: "env \<Rightarrow> string \<Rightarrow> string option" where
  "uuid2dev e =
     fold (\<lambda>objPath m.
             case createDeviceById e objPath of
               None \<Rightarrow> m
             | Some blkPtr \<Rightarrow>
                 if blk_idUUID blkPtr = [] then m
                 else m(''UUID='' @ blk_idUUID blkPtr \<mapsto> blk_device blkPtr))
          (getDevices e) Map.empty"

definition isEncrypted :: "env \<Rightarrow> string \<Rightarrow> string \<Rightarrow> int" where
  "isEncrypted e target source =
     (let dev = source;
          dev = (if starts_with dev ''UUID''
                 then (case uuid2dev e dev of None \<Rightarrow> [] | Some d \<Rightarrow> d) else dev)
      in
      if starts_with source ''UUID'' \<and> dev = [] then 0
      else if dev = [] then - 1
      else case bcCreateBlkDev e dev of
             None \<Rightarrow> - 2
           | Some devPtr \<Rightarrow> (if blk_isEncrypted devPtr then 1 else 0))"

definition remove_at :: "nat \<Rightarrow> 'a list \<Rightarrow> 'a list" where
  "remove_at i xs = take i xs @ drop (Suc i) xs"

text \<open>
  The loop of \<open>updateCrypttab\<close>, from the last line down to the first: the first argument
  is \<open>i + 1\<close>, so that \<open>lines.at(i)\<close> is always inside the list.
\<close>

fun crypttab_loop :: "env \<Rightarrow> nat \<Rightarrow> string list \<times> bool \<Rightarrow> string list \<times> bool" where
  "crypttab_loop e 0 st = st"
| "crypttab_loop e (Suc i) (lines, cryptUpdated) =
     (let line = lines ! i in
      if starts_with line ''#'' then crypttab_loop e i (lines, cryptUpdated)
      else
        let items = split_fields line in
        if length items < 2 then crypttab_loop e i (remove_at i lines, cryptUpdated)
        else if isEncrypted e (items ! 0) (items ! 1) = 0
          then crypttab_loop e i (remove_at i lines, True)
        else crypttab_loop e i (lines, cryptUpdated))"

text \<open>
  \<open>DiskEncryptDBus::updateCrypttab\<close>. Opening with \<open>ReadWrite\<close> creates the file when
  it is missing.
\<close>

definition updateCrypttab :: "env \<Rightarrow> world \<Rightarrow> bool \<times> world" where
  "updateCrypttab e w =
     (if \<not> open_ok e ''/etc/crypttab'' ReadWrite then (False, w)
      else
        let w = (case files w ''/etc/crypttab'' of
                   None \<Rightarrow> w\<lparr>files := (files w)(''/etc/crypttab'' \<mapsto> [])\<rparr>
                 | Some _ \<Rightarrow> w);
            content = (case files w ''/etc/crypttab'' of None \<Rightarrow> [] | Some c \<Rightarrow> c);
            lines = split_lines content;
            (lines, cryptUpdated) = crypttab_loop e (length lines) (lines, False)
        in
        if cryptUpdated then
          (if \<not> open_ok e ''/etc/crypttab'' WriteOnly then (False, w)
           else (cryptUpdated, write_truncate ''/etc/crypttab'' (join [CHR 0x0A] lines @ [CHR 0x0A]) w))
        else (cryptUpdated, w))"

section \<open>A sample machine\<close>

text \<open>
  One machine on which every call succeeds: a block device \<open>/dev/sdb1\<close> with an ext4
  filesystem, not mounted, not encrypted; its header reports an online reencryption in
  progress once it has one. The concrete runs below start from it and change one answer
  at a time.
\<close>

definition sdb1_obj :: string where
  "sdb1_obj = ''/org/freedesktop/UDisks2/block_devices/sdb1''"

definition sdb1_blk :: blk_dev where
  "sdb1_blk = \<lparr> blk_idType = ''ext4'', blk_idVersion = ''1.0'', blk_idUUID = ''1a2b'',
                 blk_device = ''/dev/sdb1'', blk_isEncrypted = False, blk_mountPoints = [] \<rparr>"

definition sample_env :: env where
  "sample_env =
     \<lparr> params_isValid = (\<lambda>p. device p \<noteq> [] \<and> passphrase p \<noteq> []),
       stat_isblk = (\<lambda>p. if p = ''/dev/sdb1'' then Some True else None),
       access_ok = (\<lambda>p. True),
       dir_exists = (\<lambda>p. True),
       open_ok = (\<lambda>p m. True),
       posix_fallocate = (\<lambda>p. 0),
       lib_load = True,
       lib_resolve = True,
       usec_get_recovery_key = (0, ''RK''),
       resolveDeviceNode = (\<lambda>d. if d = ''/dev/sdb1'' then [sdb1_obj] else []),
       createDeviceById = (\<lambda>i. if i = sdb1_obj then Some sdb1_blk else None),
       getDevices = [sdb1_obj],
       crypt_init = (\<lambda>p. 0),
       crypt_init_data_device = (\<lambda>p d. 0),
       crypt_load = (\<lambda>p. 0),
       crypt_persistent_flags_get = (\<lambda>p. (0, 2)),
       crypt_set_data_offset = (\<lambda>p. 0),
       crypt_format = (\<lambda>p d c m k. 0),
       crypt_keyslot_add_by_volume_key = (\<lambda>p k. 0),
       crypt_reencrypt_init_by_passphrase = (\<lambda>p c k m. 0),
       crypt_reencrypt = (\<lambda>p. ([(8, 4), (8, 8)], 0)),
       crypt_activate_by_passphrase = (\<lambda>p n k. 0),
       crypt_deactivate = (\<lambda>n. 0),
       crypt_header_restore = (\<lambda>p h. 0),
       crypt_header_backup = (\<lambda>p h. 0),
       crypt_token_json_set = (\<lambda>p i t. 0),
       crypt_set_label = (\<lambda>p l. 0),
       recoverySuperblock_ext = (\<lambda>p h. True),
       fromJson = (\<lambda>t. []),
       json_members_compact = (\<lambda>obj. []),
       json_members_indented = (\<lambda>obj. []),
       qstring_toInt = (\<lambda>s. 0),
       kDisabledEncryptPath = [''/boot''],
       kEncConfigPath = ''/boot/usec-crypt/encrypt.json'',
       token_file_path = (\<lambda>n. ''/tmp/'' @ n @ ''_token'') \<rparr>"

definition sample_world :: world where
  "sample_world =
     \<lparr> files = Map.empty,
       keyslots = (\<lambda>d. []),
       gCurrReencryptingDevice = [],
       gCurrDecryptintDevice = [],
       trace = [] \<rparr>"

definition sample_params :: EncryptParams where
  "sample_params =
     \<lparr> device = ''/dev/sdb1'', passphrase = ''p1'', cipher = ''aes'',
       recoveryPath = [], tpmToken = [] \<rparr>"


definition luks3_blk :: blk_dev where
  "luks3_blk = sdb1_blk\<lparr>blk_idType := ''crypto_LUKS'', blk_idVersion := ''3''\<rparr>"

definition luks3_env :: env where
  "luks3_env = sample_env\<lparr>createDeviceById := (\<lambda>i. Some luks3_blk)\<rparr>"

definition no_handler_env :: env where
  "no_handler_env = sample_env\<lparr>resolveDeviceNode := (\<lambda>d. [])\<rparr>"

definition no_space_env :: env where
  "no_space_env = sample_env\<lparr>posix_fallocate := (\<lambda>p. 28)\<rparr>"

definition offline_env :: env where
  "offline_env = sample_env\<lparr>crypt_persistent_flags_get := (\<lambda>p. (0, 1))\<rparr>"

definition sample_config :: EncryptConfig where
  "sample_config =
     \<lparr> cfg_cipher = ''aes-xts-plain64'', cfg_device = ''UUID=1a2b'', mountPoint = ''/data'',
       deviceName = ''Data'', devicePath = ''/dev/sdb1'', keySize = ''256'', mode = ''pin'',
       cfg_recoveryPath = [], clearDev = ''dm-sdb1'' \<rparr>"

definition sample_request :: QVariantMap where
  "sample_request =
     [(kKeyDevice, VString ''/dev/sdb1''), (kKeyUUID, VString ''1a2b''),
      (kKeyCipher, VString ''aes''), (kKeyPassphrase, VString ''p1''),
      (kKeyDeviceName, VString ''Data''), (kKeyMountPoint, VString ''/data'')]"

section \<open>Reading the log\<close>

text \<open>The entries a run adds to the log.\<close>

definition new_events :: "world \<Rightarrow> world \<Rightarrow> event list" where
  "new_events w w' = drop (length (trace w)) (trace w')"

text \<open>
  Opening a context, loading the header and reading its flags change nothing on the
  device; every other entry of the log is work on it.
\<close>

definition is_probe :: "event \<Rightarrow> bool" where
  "is_probe ev =
     (case ev of
        CryptInit _ \<Rightarrow> True
      | CryptInitDataDevice _ _ \<Rightarrow> True
      | CryptLoad _ \<Rightarrow> True
      | FlagsGet _ \<Rightarrow> True
      | _ \<Rightarrow> False)"

definition is_progress :: "event \<Rightarrow> bool" where
  "is_progress ev =
     (case ev of
        UpdateEncryptProgress _ _ _ \<Rightarrow> True
      | UpdateDecryptProgress _ _ _ \<Rightarrow> True
      | _ \<Rightarrow> False)"

definition is_remove :: "event \<Rightarrow> bool" where
  "is_remove ev = (case ev of RemoveFile _ \<Rightarrow> True | _ \<Rightarrow> False)"




text \<open>A run that only adds to the log and removes no file.\<close>

definition quiet :: "world \<Rightarrow> world \<Rightarrow> bool" where
  "quiet w w' = (\<exists>evs. trace w' = trace w @ evs \<and> filter is_remove evs = [])"

section \<open>Properties of the header preparation\<close>

definition file_exists :: "world \<Rightarrow> string \<Rightarrow> bool" where
  "file_exists w p = (files w p \<noteq> None)"

lemma file_exists_emit [simp]: "file_exists (emit ev w) p = file_exists w p"
  by (simp add: file_exists_def emit_def)

lemma trace_emit [simp]: "trace (emit ev w) = trace w @ [ev]"
  by (simp add: emit_def)

lemma bcInitHeaderFile_unchanged:
  "bcDevEncryptVersion e (device params) \<noteq> kNotEncrypted \<Longrightarrow>
   snd (bcInitHeaderFile e params hp kc kr w) = w"
  by (simp add: bcInitHeaderFile_def)



text \<open>
  C10. With valid parameters: when no handler can be made for the device the version
  query answers \<open>kVersionUnknown\<close>; when the device is LUKS with a version other than 1
  and 2 it answers \<open>kVersionLUKSUnknown\<close>; when the device is encrypted but not LUKS it
  answers \<open>kVersionUnknown\<close>. None of these is \<open>kNotEncrypted\<close>, and in each case
  \<open>bcInitHeaderFile\<close> returns \<open>-kErrorDeviceEncrypted\<close> and leaves the world as it was.
  Whenever a run of \<open>bcInitHeaderFile\<close> formats anything, a handler was made for the
  device, its type is not LUKS and it is reported as not encrypted.
\<close>

theorem undetermined_device_is_never_formatted:
  assumes "bcValidateParams e params"
  shows "(bcCreateBlkDev e (device params) = None \<longrightarrow>
            bcDevEncryptVersion e (device params) = kVersionUnknown
            \<and> bcInitHeaderFile e params hp kc kr w = ((Neg kErrorDeviceEncrypted, hp, kc, kr), w))
       \<and> (\<forall>b. bcCreateBlkDev e (device params) = Some b \<and> blk_idType b = ''crypto_LUKS''
                \<and> blk_idVersion b \<noteq> ''1'' \<and> blk_idVersion b \<noteq> ''2'' \<longrightarrow>
            bcDevEncryptVersion e (device params) = kVersionLUKSUnknown
            \<and> bcInitHeaderFile e params hp kc kr w = ((Neg kErrorDeviceEncrypted, hp, kc, kr), w))
       \<and> (\<forall>b. bcCreateBlkDev e (device params) = Some b \<and> blk_idType b \<noteq> ''crypto_LUKS''
                \<and> blk_isEncrypted b \<longrightarrow>
            bcDevEncryptVersion e (device params) = kVersionUnknown
            \<and> bcInitHeaderFile e params hp kc kr w = ((Neg kErrorDeviceEncrypted, hp, kc, kr), w))
       \<and> (\<forall>hdr dev. CryptFormat hdr dev \<in> set (trace (snd (bcInitHeaderFile e params hp kc kr w)))
                \<and> CryptFormat hdr dev \<notin> set (trace w) \<longrightarrow>
            (\<exists>b. bcCreateBlkDev e (device params) = Some b \<and> blk_idType b \<noteq> ''crypto_LUKS''
                 \<and> \<not> blk_isEncrypted b))"
proof (intro conjI allI impI)
  assume "bcCreateBlkDev e (device params) = None"
  then show "bcDevEncryptVersion e (device params) = kVersionUnknown"
    by (simp add: bcDevEncryptVersion_def)
  then show "bcInitHeaderFile e params hp kc kr w = ((Neg kErrorDeviceEncrypted, hp, kc, kr), w)"
    using assms by (simp add: bcInitHeaderFile_def)
next
  fix b
  assume "bcCreateBlkDev e (device params) = Some b \<and> blk_idType b = ''crypto_LUKS''
                \<and> blk_idVersion b \<noteq> ''1'' \<and> blk_idVersion b \<noteq> ''2''"
  then show "bcDevEncryptVersion e (device params) = kVersionLUKSUnknown"
    by (simp add: bcDevEncryptVersion_def)
  then show "bcInitHeaderFile e params hp kc kr w = ((Neg kErrorDeviceEncrypted, hp, kc, kr), w)"
    using assms by (simp add: bcInitHeaderFile_def)
next
  fix b
  assume "bcCreateBlkDev e (device params) = Some b \<and> blk_idType b \<noteq> ''crypto_LUKS''
                \<and> blk_isEncrypted b"
  then show "bcDevEncryptVersion e (device params) = kVersionUnknown"
    by (simp add: bcDevEncryptVersion_def)
  then show "bcInitHeaderFile e params hp kc kr w = ((Neg kErrorDeviceEncrypted, hp, kc, kr), w)"
    using assms by (simp add: bcInitHeaderFile_def)
next
  fix hdr dev
  assume a: "CryptFormat hdr dev \<in> set (trace (snd (bcInitHeaderFile e params hp kc kr w)))
                \<and> CryptFormat hdr dev \<notin> set (trace w)"
  have "bcDevEncryptVersion e (device params) = kNotEncrypted"
  proof (rule ccontr)
    assume "bcDevEncryptVersion e (device params) \<noteq> kNotEncrypted"
    then have "snd (bcInitHeaderFile e params hp kc kr w) = w"
      by (rule bcInitHeaderFile_unchanged)
    with a show False by simp
  qed
  then show "\<exists>b. bcCreateBlkDev e (device params) = Some b \<and> blk_idType b \<noteq> ''crypto_LUKS''
                 \<and> \<not> blk_isEncrypted b"
    by (auto simp: bcDevEncryptVersion_def split: option.splits if_splits)
qed

theorem undetermined_device_is_never_formatted_witness:
  "bcValidateParams no_handler_env sample_params
   \<and> bcCreateBlkDev no_handler_env (device sample_params) = None
   \<and> bcDevEncryptVersion no_handler_env (device sample_params) = kVersionUnknown
   \<and> bcInitHeaderFile no_handler_env sample_params [] (- 1) (- 1) sample_world =
       ((Neg kErrorDeviceEncrypted, [], - 1, - 1), sample_world)
   \<and> bcValidateParams luks3_env sample_params
   \<and> bcCreateBlkDev luks3_env (device sample_params) = Some luks3_blk
   \<and> bcDevEncryptVersion luks3_env (device sample_params) = kVersionLUKSUnknown
   \<and> bcInitHeaderFile luks3_env sample_params [] (- 1) (- 1) sample_world =
       ((Neg kErrorDeviceEncrypted, [], - 1, - 1), sample_world)
   \<and> CryptFormat ''/tmp/sdb1_luks2_pre_enc'' ''/dev/sdb1''
       \<in> set (trace (snd (bcInitHeaderFile sample_env sample_params [] (- 1) (- 1) sample_world)))
   \<and> bcCreateBlkDev sample_env (device sample_params) = Some sdb1_blk
   \<and> blk_idType sdb1_blk \<noteq> ''crypto_LUKS'' \<and> \<not> blk_isEncrypted sdb1_blk"
proof -
  have v1: "bcValidateParams no_handler_env sample_params"
    by (simp add: bcValidateParams_def no_handler_env_def sample_env_def sample_params_def)
  have n1: "bcCreateBlkDev no_handler_env (device sample_params) = None"
    by (simp add: bcCreateBlkDev_def no_handler_env_def sample_env_def)
  have v2: "bcValidateParams luks3_env sample_params"
    by (simp add: bcValidateParams_def luks3_env_def sample_env_def sample_params_def)
  have n2: "bcCreateBlkDev luks3_env (device sample_params) = Some luks3_blk"
    by (simp add: bcCreateBlkDev_def luks3_env_def sample_env_def sample_params_def)
  have b2: "blk_idType luks3_blk = ''crypto_LUKS'' \<and> blk_idVersion luks3_blk \<noteq> ''1''
            \<and> blk_idVersion luks3_blk \<noteq> ''2''"
    by (simp add: luks3_blk_def)
  have v3: "bcValidateParams sample_env sample_params"
    by (simp add: bcValidateParams_def sample_env_def sample_params_def)
  have n3: "bcCreateBlkDev sample_env (device sample_params) = Some sdb1_blk"
    by (simp add: bcCreateBlkDev_def sample_env_def sample_params_def)
  have b3: "blk_idType sdb1_blk \<noteq> ''crypto_LUKS'' \<and> \<not> blk_isEncrypted sdb1_blk"
    by (simp add: sdb1_blk_def)
  have f3: "CryptFormat ''/tmp/sdb1_luks2_pre_enc'' ''/dev/sdb1''
       \<in> set (trace (snd (bcInitHeaderFile sample_env sample_params [] (- 1) (- 1) sample_world)))"
    by (simp add: bcInitHeaderFile_def bcValidateParams_def bcDevEncryptVersion_def
        bcCreateBlkDev_def bcIsMounted_def bcDoSetupHeader_def bcPrepareHeaderFile_def
        doSetupHeader_body_def doSetupHeader_finalClear_def bcExpRecFile_def parseCipher_def
        sample_env_def sample_params_def sample_world_def sdb1_blk_def Let_def)
  show ?thesis
    using undetermined_device_is_never_formatted [OF v1, of "[]" "- 1" "- 1" sample_world]
      undetermined_device_is_never_formatted [OF v2, of "[]" "- 1" "- 1" sample_world]
      v1 n1 v2 n2 b2 n3 b3 f3
    by simp
qed

subsection \<open>Rolling back a failed preparation\<close>

lemma doSetupHeader_body_ret:
  "doSetupHeader_body e params localPath hp kc kr w = (((res, hp', kc', kr'), ret), w') \<Longrightarrow>
   (res \<noteq> kSuccess \<longleftrightarrow> ret < 0) \<and> (res = kSuccess \<longrightarrow> hp' = localPath)"
  unfolding doSetupHeader_body_def parseCipher_def Let_def
  by (auto split: if_splits prod.splits)

lemma bcExpRecFile_keeps_files [simp]:
  "file_exists w p \<Longrightarrow> file_exists (snd (bcExpRecFile e params w)) p"
  by (simp add: bcExpRecFile_def Let_def write_at_start_def file_exists_def)

lemma bcExpRecFile_trace [simp]:
  "trace (snd (bcExpRecFile e params w)) = trace w"
  by (simp add: bcExpRecFile_def Let_def write_at_start_def)

lemma doSetupHeader_body_files:
  "file_exists w p \<Longrightarrow>
   file_exists (snd (doSetupHeader_body e params localPath hp kc kr w)) p"
  unfolding doSetupHeader_body_def parseCipher_def
  by (simp add: Let_def split_beta)

lemma doSetupHeader_body_no_remove:
  "RemoveFile p \<notin> set (trace w) \<Longrightarrow>
   RemoveFile p \<notin> set (trace (snd (doSetupHeader_body e params localPath hp kc kr w)))"
  unfolding doSetupHeader_body_def parseCipher_def
  by (simp add: Let_def split_beta)

lemma doSetupHeader_body_trace:
  "\<exists>evs. trace (snd (doSetupHeader_body e params localPath hp kc kr w)) = trace w @ evs"
  unfolding doSetupHeader_body_def parseCipher_def
  by (simp add: Let_def split_beta)

lemma bcPrepareHeaderFile_created:
  "bcPrepareHeaderFile e dev [] w = ((c, localPath), w0) \<Longrightarrow> localPath \<noteq> [] \<Longrightarrow>
   file_exists w0 localPath \<and> trace w0 = trace w \<and> \<not> file_exists w localPath"
  unfolding bcPrepareHeaderFile_def Let_def file_exists_def
  by (auto split: if_splits)

text \<open>
  Once \<open>bcPrepareHeaderFile\<close> has handed the scratch file's path to \<open>bcDoSetupHeader\<close>,
  every failure removes the scratch file and then expands the filesystem of the device,
  as the last two things done; a success hands the path out, keeps the file and removes
  nothing.
\<close>

lemma bcDoSetupHeader_failure_rolls_back:
  assumes p: "bcPrepareHeaderFile e (device params) [] w = ((c, localPath), w0)" "localPath \<noteq> []"
      and r: "bcDoSetupHeader e params hp kc kr w = ((res, hp', kc', kr'), w')"
      and f: "res \<noteq> kSuccess"
  shows "\<not> file_exists w' localPath
         \<and> (\<exists>evs. trace w' = trace w @ Shrink (device params) # evs
                      @ [RemoveFile localPath, Expand (device params)])"
proof -
  obtain res2 ret w2 where
    b: "doSetupHeader_body e params localPath hp kc kr (emit (Shrink (device params)) w0)
          = ((res2, ret), w2)"
    by (metis prod.exhaust)
  have w': "w' = doSetupHeader_finalClear params localPath ret w2"
    and res2: "res2 = (res, hp', kc', kr')"
    using p r b by (simp_all add: bcDoSetupHeader_def)
  have neg: "ret < 0"
    using doSetupHeader_body_ret b f res2 by blast
  obtain evs where t: "trace w2 = trace w0 @ Shrink (device params) # evs"
    using doSetupHeader_body_trace
            [of e params localPath hp kc kr "emit (Shrink (device params)) w0"] b
    by auto
  have "trace w0 = trace w"
    using bcPrepareHeaderFile_created [OF p] by simp
  with t neg w' show ?thesis
    by (simp add: doSetupHeader_finalClear_def remove_file_def file_exists_def emit_def)
qed

lemma bcDoSetupHeader_success_keeps:
  assumes p: "bcPrepareHeaderFile e (device params) [] w = ((c, localPath), w0)" "localPath \<noteq> []"
      and r: "bcDoSetupHeader e params hp kc kr w = ((res, hp', kc', kr'), w')"
      and f: "res = kSuccess"
      and n: "RemoveFile localPath \<notin> set (trace w)"
  shows "hp' = localPath \<and> file_exists w' localPath \<and> RemoveFile localPath \<notin> set (trace w')"
proof -
  obtain res2 ret w2 where
    b: "doSetupHeader_body e params localPath hp kc kr (emit (Shrink (device params)) w0)
          = ((res2, ret), w2)"
    by (metis prod.exhaust)
  have w': "w' = doSetupHeader_finalClear params localPath ret w2"
    and res2: "res2 = (res, hp', kc', kr')"
    using p r b by (simp_all add: bcDoSetupHeader_def)
  have neg: "\<not> ret < 0" and hp: "hp' = localPath"
    using doSetupHeader_body_ret b f res2 by blast+
  have c: "file_exists w0 localPath" "trace w0 = trace w"
    using bcPrepareHeaderFile_created [OF p] by simp_all
  have "file_exists w2 localPath"
    using doSetupHeader_body_files
            [of "emit (Shrink (device params)) w0" localPath e params localPath hp kc kr] b c
    by simp
  moreover have "RemoveFile localPath \<notin> set (trace w2)"
    using doSetupHeader_body_no_remove
            [of localPath "emit (Shrink (device params)) w0" e params localPath hp kc kr] b c n
    by simp
  ultimately show ?thesis
    using neg w' hp by (simp add: doSetupHeader_finalClear_def)
qed

text \<open>
  C6. The claim asks that every run failing after the scratch file exists removes it.
  On the sample machine with \<open>posix_fallocate\<close> answering 28 (no space left), the scratch
  file \<open>/tmp/sdb1_luks2_pre_enc\<close> does not exist before the run, \<open>open\<close> creates it,
  the allocation fails, and \<open>bcDoSetupHeader\<close> returns \<open>-kErrorCreateHeader\<close> with the
  file still there and nothing logged: the file is not removed (no shrink has happened at
  that point, so there is none to reverse).
\<close>

theorem scratch_file_survives_failed_allocation:
  "files sample_world ''/tmp/sdb1_luks2_pre_enc'' = None
   \<and> bcDoSetupHeader no_space_env sample_params [] (- 1) (- 1) sample_world =
       ((Neg kErrorCreateHeader, [], - 1, - 1),
        sample_world\<lparr>files := [''/tmp/sdb1_luks2_pre_enc'' \<mapsto> []]\<rparr>)"
  by (simp add: bcDoSetupHeader_def bcPrepareHeaderFile_def no_space_env_def sample_env_def
      sample_params_def sample_world_def Let_def)

section \<open>Properties of the reencryption driver\<close>

lemma fold_encrypt_progress:
  "fold (\<lambda>(sz, offset). bcEncryptProgress sz offset) xs w =
     w\<lparr>trace := trace w @ map (\<lambda>(sz, offset). UpdateEncryptProgress (gCurrReencryptingDevice w) offset sz) xs\<rparr>"
  by (induction xs arbitrary: w) (auto simp: bcEncryptProgress_def emit_def)


lemma resume_wrong_flags:
  assumes "0 \<le> crypt_init_data_device e dev (Some dev)" "0 \<le> crypt_load e dev"
    "0 \<le> fst (crypt_persistent_flags_get e dev)"
    "snd (crypt_persistent_flags_get e dev) AND CRYPT_REQUIREMENT_ONLINE_REENCRYPT = 0"
  shows "bcResumeReencrypt e dev pass clearDevice expandFs w =
      (Neg kErrorWrongFlags,
       w\<lparr>gCurrReencryptingDevice := dev, gCurrDecryptintDevice := [],
         trace := trace w @ [CryptInitDataDevice dev (Some dev), CryptLoad dev, FlagsGet dev]\<rparr>)"
  using assms
  by (simp add: bcResumeReencrypt_def resumeReencrypt_body_def Let_def split_beta emit_def not_less)

lemma resume_body_new_events:
  "\<exists>evs. trace (snd (resumeReencrypt_body e dev pass clearDevice expandFs w)) = trace w @ evs
     \<and> ((\<exists>ev\<in>set evs. \<not> is_probe ev) \<longrightarrow>
           0 \<le> fst (crypt_persistent_flags_get e dev)
           \<and> snd (crypt_persistent_flags_get e dev) AND CRYPT_REQUIREMENT_ONLINE_REENCRYPT \<noteq> 0)"
  unfolding resumeReencrypt_body_def run_reencrypt_def
  by (simp add: Let_def split_beta fold_encrypt_progress is_probe_def)


lemma bcDevEncryptStatus_world:
  "snd (bcDevEncryptStatus e dev st w) = w\<lparr>trace := trace (snd (bcDevEncryptStatus e dev st w))\<rparr>"
  unfolding bcDevEncryptStatus_def
  by (simp add: Let_def split_beta emit_def)

lemma bcDevEncryptStatus_trace:
  "\<exists>evs. trace (snd (bcDevEncryptStatus e dev st w)) = trace w @ evs \<and> list_all is_probe evs"
  unfolding bcDevEncryptStatus_def
  by (simp add: Let_def split_beta emit_def is_probe_def)

lemma bcDevEncryptStatus_probes:
  "\<exists>evs. snd (bcDevEncryptStatus e dev st w) = w\<lparr>trace := trace w @ evs\<rparr> \<and> list_all is_probe evs"
  using bcDevEncryptStatus_world [of e dev st w] bcDevEncryptStatus_trace [of e dev st w]
  by metis

lemma resume_new_events_need_flag:
  assumes a: "\<exists>ev \<in> set (new_events w (snd (bcResumeReencrypt e dev pass clearDevice expandFs w))).
          \<not> is_probe ev"
  shows "0 \<le> fst (crypt_persistent_flags_get e dev)
        \<and> snd (crypt_persistent_flags_get e dev) AND CRYPT_REQUIREMENT_ONLINE_REENCRYPT \<noteq> 0"
proof -
  obtain evs where
    t: "trace (snd (resumeReencrypt_body e dev pass clearDevice expandFs
                      (w\<lparr>gCurrReencryptingDevice := dev\<rparr>))) = trace w @ evs"
    and i: "(\<exists>ev\<in>set evs. \<not> is_probe ev) \<longrightarrow>
           0 \<le> fst (crypt_persistent_flags_get e dev)
           \<and> snd (crypt_persistent_flags_get e dev) AND CRYPT_REQUIREMENT_ONLINE_REENCRYPT \<noteq> 0"
    using resume_body_new_events [of e dev pass clearDevice expandFs "w\<lparr>gCurrReencryptingDevice := dev\<rparr>"]
    by auto
  have "new_events w (snd (bcResumeReencrypt e dev pass clearDevice expandFs w)) = evs"
    using t by (simp add: new_events_def bcResumeReencrypt_def Let_def split_beta)
  with a i show ?thesis
    by simp
qed

lemma worker_idle_without_online_status:
  assumes a: "fst (bcDevEncryptStatus e (devicePath config) kStatusFinished w)
          \<noteq> (kSuccess, kStatusOnlineUnfinished)"
  shows "\<exists>evs. ReencryptWorkerV2_run e config supplied exitCode w =
                  Some (exitCode, w\<lparr>trace := trace w @ evs\<rparr>)
              \<and> list_all is_probe evs"
proof (cases "devicePath config = []")
  case True
  then have "ReencryptWorkerV2_run e config supplied exitCode w = Some (exitCode, w\<lparr>trace := trace w @ []\<rparr>)"
    by (simp add: ReencryptWorkerV2_run_def hasUnfinishedOnlineEncryption_def)
  moreover have "list_all is_probe []" by simp
  ultimately show ?thesis by blast
next
  case False
  obtain evs where
    s: "snd (bcDevEncryptStatus e (devicePath config) kStatusFinished w) = w\<lparr>trace := trace w @ evs\<rparr>"
    and p: "list_all is_probe evs"
    using bcDevEncryptStatus_probes by blast
  obtain ret st where f: "fst (bcDevEncryptStatus e (devicePath config) kStatusFinished w) = (ret, st)"
    by (metis prod.exhaust)
  have "ReencryptWorkerV2_run e config supplied exitCode w = Some (exitCode, w\<lparr>trace := trace w @ evs\<rparr>)"
    using False a f s
    by (cases st) (auto simp add: ReencryptWorkerV2_run_def hasUnfinishedOnlineEncryption_def Let_def split_beta)
  with p show ?thesis by blast
qed

text \<open>
  C2. \<open>bcResumeReencrypt\<close> opens the context, loads the header and reads the persistent
  requirement flags; when these three calls succeed and the online-reencrypt bit is not
  set (no bit, or only another one), it returns \<open>-kErrorWrongFlags\<close> having logged those
  three calls and nothing else. Whenever a run of it logs anything beyond such calls, the
  flags were read and the online-reencrypt bit was set. The boot-time worker, when the
  status query does not answer \<open>kStatusOnlineUnfinished\<close> with success, returns with the
  exit code it had and has logged nothing but such calls.
\<close>

theorem resume_only_with_online_flag:
  "(0 \<le> crypt_init_data_device e dev (Some dev) \<and> 0 \<le> crypt_load e dev
      \<and> 0 \<le> fst (crypt_persistent_flags_get e dev)
      \<and> snd (crypt_persistent_flags_get e dev) AND CRYPT_REQUIREMENT_ONLINE_REENCRYPT = 0
    \<longrightarrow> bcResumeReencrypt e dev pass clearDevice expandFs w =
          (Neg kErrorWrongFlags,
           w\<lparr>gCurrReencryptingDevice := dev, gCurrDecryptintDevice := [],
             trace := trace w @ [CryptInitDataDevice dev (Some dev), CryptLoad dev, FlagsGet dev]\<rparr>))
   \<and> ((\<exists>ev \<in> set (new_events w (snd (bcResumeReencrypt e dev pass clearDevice expandFs w))).
          \<not> is_probe ev)
    \<longrightarrow> 0 \<le> fst (crypt_persistent_flags_get e dev)
        \<and> snd (crypt_persistent_flags_get e dev) AND CRYPT_REQUIREMENT_ONLINE_REENCRYPT \<noteq> 0)
   \<and> (fst (bcDevEncryptStatus e (devicePath config) kStatusFinished w)
          \<noteq> (kSuccess, kStatusOnlineUnfinished)
    \<longrightarrow> (\<exists>evs. ReencryptWorkerV2_run e config supplied exitCode w =
                  Some (exitCode, w\<lparr>trace := trace w @ evs\<rparr>)
              \<and> list_all is_probe evs))"
  using resume_wrong_flags [of e dev pass clearDevice expandFs w]
    resume_new_events_need_flag [of w e dev pass clearDevice expandFs]
    worker_idle_without_online_status [of e config w supplied exitCode]
  by blast

lemma flags_ex: "(1::32 word) AND CRYPT_REQUIREMENT_ONLINE_REENCRYPT = 0"
  "(2::32 word) AND CRYPT_REQUIREMENT_ONLINE_REENCRYPT \<noteq> 0"
  "(2::32 word) AND CRYPT_REQUIREMENT_OFFLINE_REENCRYPT = 0"
  "(2::32 word) AND CRYPT_REQUIREMENT_UNKNOWN = 0"
  "(1::32 word) AND CRYPT_REQUIREMENT_OFFLINE_REENCRYPT \<noteq> 0"
  "(1::32 word) AND CRYPT_REQUIREMENT_UNKNOWN = 0"
  by (simp_all add: CRYPT_REQUIREMENT_ONLINE_REENCRYPT_def CRYPT_REQUIREMENT_OFFLINE_REENCRYPT_def CRYPT_REQUIREMENT_UNKNOWN_def)

theorem resume_only_with_online_flag_witness:
  "0 \<le> crypt_init_data_device offline_env ''/dev/sdb1'' (Some ''/dev/sdb1'')
   \<and> 0 \<le> crypt_load offline_env ''/dev/sdb1''
   \<and> 0 \<le> fst (crypt_persistent_flags_get offline_env ''/dev/sdb1'')
   \<and> snd (crypt_persistent_flags_get offline_env ''/dev/sdb1'') AND CRYPT_REQUIREMENT_ONLINE_REENCRYPT = 0
   \<and> bcResumeReencrypt offline_env ''/dev/sdb1'' [] [] False sample_world =
        (Neg kErrorWrongFlags,
         sample_world\<lparr>gCurrReencryptingDevice := ''/dev/sdb1'', gCurrDecryptintDevice := [],
           trace := trace sample_world @ [CryptInitDataDevice ''/dev/sdb1'' (Some ''/dev/sdb1''),
                     CryptLoad ''/dev/sdb1'', FlagsGet ''/dev/sdb1'']\<rparr>)
   \<and> fst (bcDevEncryptStatus offline_env (devicePath sample_config) kStatusFinished sample_world)
         = (kSuccess, kStatusOfflineUnfinished)
   \<and> (\<exists>evs. ReencryptWorkerV2_run offline_env sample_config [sample_request] kSuccess sample_world =
                  Some (kSuccess, sample_world\<lparr>trace := trace sample_world @ evs\<rparr>)
              \<and> list_all is_probe evs)
   \<and> (\<exists>ev \<in> set (new_events sample_world (snd (bcResumeReencrypt sample_env ''/dev/sdb1'' [] [] False sample_world))).
          \<not> is_probe ev)
   \<and> 0 \<le> fst (crypt_persistent_flags_get sample_env ''/dev/sdb1'')
   \<and> snd (crypt_persistent_flags_get sample_env ''/dev/sdb1'') AND CRYPT_REQUIREMENT_ONLINE_REENCRYPT \<noteq> 0"
proof -
  have h1: "0 \<le> crypt_init_data_device offline_env ''/dev/sdb1'' (Some ''/dev/sdb1'')
   \<and> 0 \<le> crypt_load offline_env ''/dev/sdb1''
   \<and> 0 \<le> fst (crypt_persistent_flags_get offline_env ''/dev/sdb1'')
   \<and> snd (crypt_persistent_flags_get offline_env ''/dev/sdb1'') AND CRYPT_REQUIREMENT_ONLINE_REENCRYPT = 0"
    by (simp add: offline_env_def sample_env_def flags_ex)
  have h3: "fst (bcDevEncryptStatus offline_env (devicePath sample_config) kStatusFinished sample_world)
         = (kSuccess, kStatusOfflineUnfinished)"
    by (simp add: bcDevEncryptStatus_def offline_env_def sample_env_def sample_config_def Let_def flags_ex)
  have h2: "\<exists>ev \<in> set (new_events sample_world (snd (bcResumeReencrypt sample_env ''/dev/sdb1'' [] [] False sample_world))).
          \<not> is_probe ev"
  proof -
    have "ReencryptInit ''/dev/sdb1'' [] resumeParams
            \<in> set (new_events sample_world (snd (bcResumeReencrypt sample_env ''/dev/sdb1'' [] [] False sample_world)))"
      by (simp add: new_events_def bcResumeReencrypt_def resumeReencrypt_body_def run_reencrypt_def
          sample_env_def sample_world_def Let_def flags_ex emit_def bcEncryptProgress_def)
    moreover have "\<not> is_probe (ReencryptInit ''/dev/sdb1'' [] resumeParams)"
      by (simp add: is_probe_def)
    ultimately show ?thesis by blast
  qed
  have n3: "fst (bcDevEncryptStatus offline_env (devicePath sample_config) kStatusFinished sample_world)
          \<noteq> (kSuccess, kStatusOnlineUnfinished)"
    using h3 by simp
  show ?thesis
    using resume_only_with_online_flag
            [of offline_env "''/dev/sdb1''" "[]" "[]" False sample_world sample_config
                "[sample_request]" kSuccess]
      resume_only_with_online_flag
            [of sample_env "''/dev/sdb1''" "[]" "[]" False sample_world sample_config
                "[sample_request]" kSuccess]
      h1 h2 h3 n3
    by blast
qed

lemma filter_progress_enc [simp]:
  "filter is_progress (map (\<lambda>(sz, offset). UpdateEncryptProgress d offset sz) xs)
     = map (\<lambda>(sz, offset). UpdateEncryptProgress d offset sz) xs"
  by (induction xs) (auto simp: is_progress_def)

lemma filter_progress_dec [simp]:
  "filter is_progress (map (\<lambda>(sz, offset). UpdateDecryptProgress d offset sz) xs)
     = map (\<lambda>(sz, offset). UpdateDecryptProgress d offset sz) xs"
  by (induction xs) (auto simp: is_progress_def)

lemma reencrypt_notin_progress [simp]:
  "Reencrypt h \<notin> set (map (\<lambda>(sz, offset). UpdateEncryptProgress d offset sz) xs)"
  "Reencrypt h \<notin> set (map (\<lambda>(sz, offset). UpdateDecryptProgress d offset sz) xs)"
  by auto







section \<open>Properties of the boot-time resume worker\<close>

lemma quiet_refl [simp]: "quiet w w"
  by (simp add: quiet_def)

lemma quiet_trans: "quiet w w' \<Longrightarrow> quiet w' w'' \<Longrightarrow> quiet w w''"
  by (auto simp: quiet_def)









lemma bcChangePassphrase_quiet [simp]:
  "quiet w w1 \<Longrightarrow> quiet w (snd (bcChangePassphrase e dev old new ks w1))"
  unfolding bcChangePassphrase_def
  by (erule quiet_trans) (simp add: Let_def split_beta quiet_def is_remove_def emit_def)

lemma bcChangePassphraseByRecKey_quiet [simp]:
  "quiet w w1 \<Longrightarrow> quiet w (snd (bcChangePassphraseByRecKey e dev old new ks w1))"
  unfolding bcChangePassphraseByRecKey_def
  by (erule quiet_trans) (simp add: Let_def split_beta quiet_def is_remove_def emit_def)

lemma bcSetToken_quiet [simp]:
  "quiet w w1 \<Longrightarrow> quiet w (snd (bcSetToken e dev token w1))"
  unfolding bcSetToken_def
  by (erule quiet_trans) (simp add: Let_def split_beta quiet_def is_remove_def emit_def)

lemma bcSetLabel_quiet [simp]:
  "quiet w w1 \<Longrightarrow> quiet w (snd (bcSetLabel e dev label w1))"
  unfolding bcSetLabel_def
  by (erule quiet_trans) (simp add: Let_def split_beta quiet_def is_remove_def emit_def)

lemma bcExpRecFile_quiet [simp]:
  "quiet w w1 \<Longrightarrow> quiet w (snd (bcExpRecFile e params w1))"
  by (simp add: quiet_def)

lemma setPassphrase_quiet [simp]:
  "quiet w w1 \<Longrightarrow> quiet w (snd (setPassphrase e config params ec w1))"
  unfolding setPassphrase_def
  by (simp add: Let_def split_beta)

lemma setRecoveryKey_quiet [simp]:
  "quiet w w1 \<Longrightarrow> quiet w (snd (setRecoveryKey e config params ec w1))"
  unfolding setRecoveryKey_def
  by (simp add: Let_def split_beta)

lemma setBakcingDevLabel_quiet [simp]:
  "quiet w w1 \<Longrightarrow> quiet w (setBakcingDevLabel e config w1)"
  by (simp add: setBakcingDevLabel_def)

lemma updateCrypttab_quiet [simp]:
  "quiet w w1 \<Longrightarrow> quiet w (ReencryptWorkerV2_updateCrypttab e params w1)"
  by (simp add: ReencryptWorkerV2_updateCrypttab_def Let_def split_beta write_truncate_def quiet_def
      split: option.splits)







end
